theory Spec2Isabelle
  imports Complex_Main "HOL-Library.Sublist"
begin

section \<open>Values handled by \<^verbatim>\<open>bambu_status.py\<close>\<close>

text \<open>
  The module has one function, \<^verbatim>\<open>get_bambu_printer_status\<close>, with four nested callbacks.
  It works on documents produced by \<^verbatim>\<open>json.loads\<close>. A document is \<^verbatim>\<open>None\<close>, a \<^verbatim>\<open>bool\<close>,
  an \<^verbatim>\<open>int\<close> (unbounded), a \<^verbatim>\<open>float\<close>, a \<^verbatim>\<open>str\<close>, a \<^verbatim>\<open>list\<close> or a \<^verbatim>\<open>dict\<close> with string
  keys. A dict is kept as an association list in which the first binding of a key is the
  dict's binding.

  A \<^verbatim>\<open>float\<close> is an IEEE double: a finite one is the rational number it denotes, and there
  are the two infinities and the NaN (\<^verbatim>\<open>json.loads\<close> returns them for \<^verbatim>\<open>Infinity\<close> or \<^verbatim>\<open>1e999\<close>,
  \<^verbatim>\<open>-Infinity\<close> and \<^verbatim>\<open>NaN\<close>). The sign of a zero is not kept: the function compares a zero
  with 0 and never renders a negative one.
\<close>

datatype pyfloat = Finite rat | PosInf | NegInf | NaN

datatype json =
    JNull
  | JBool bool
  | JInt int
  | JFloat pyfloat
  | JStr string
  | JList "json list"
  | JDict "(string \<times> json) list"

text \<open>The exceptions that occur. \<^verbatim>\<open>LibraryError\<close> stands for whatever a library call raises.\<close>

datatype exn =
    AttributeError
  | TypeError
  | JSONDecodeError
  | UnicodeDecodeError
  | LibraryError string

subsection \<open>The Python operators the function applies to documents\<close>

text \<open>\<^verbatim>\<open>d.get(key, default)\<close>: only a dict has the method.\<close>

fun py_get :: "json \<Rightarrow> string \<Rightarrow> json \<Rightarrow> exn + json" where
  "py_get (JDict kvs) key dflt =
     Inr (case map_of kvs key of None \<Rightarrow> dflt | Some v \<Rightarrow> v)"
| "py_get _ key dflt = Inl AttributeError"

text \<open>
  \<^verbatim>\<open>key in x\<close> for a string \<^verbatim>\<open>key\<close>: key membership on a dict, element membership on a list,
  substring test on a str, and \<^verbatim>\<open>TypeError\<close> on everything else.
\<close>

fun py_contains :: "string \<Rightarrow> json \<Rightarrow> exn + bool" where
  "py_contains key (JDict kvs) = Inr (map_of kvs key \<noteq> None)"
| "py_contains key (JList xs) = Inr (JStr key \<in> set xs)"
| "py_contains key (JStr s) = Inr (sublist key s)"
| "py_contains key _ = Inl TypeError"

text \<open>Truth value of a document, as \<^verbatim>\<open>elif status_data:\<close> tests it.\<close>

fun truthy :: "json \<Rightarrow> bool" where
  "truthy JNull = False"
| "truthy (JBool b) = b"
| "truthy (JInt i) = (i \<noteq> 0)"
| "truthy (JFloat f) = (f \<noteq> Finite 0)"
| "truthy (JStr s) = (s \<noteq> [])"
| "truthy (JList xs) = (xs \<noteq> [])"
| "truthy (JDict kvs) = (kvs \<noteq> [])"

text \<open>\<^verbatim>\<open>v == "s"\<close> never raises.\<close>

definition py_eq_str :: "json \<Rightarrow> string \<Rightarrow> bool" where
  "py_eq_str v s = (v = JStr s)"

text \<open>\<^verbatim>\<open>v in ["a", "b", ...]\<close>: equality with each element in turn.\<close>

fun py_in_strs :: "json \<Rightarrow> string list \<Rightarrow> bool" where
  "py_in_strs v [] = False"
| "py_in_strs v (s # ss) = (py_eq_str v s \<or> py_in_strs v ss)"

subsection \<open>Decimal rendering of an \<^verbatim>\<open>int\<close> in an f-string\<close>

definition digit_char :: "nat \<Rightarrow> char" where
  "digit_char d = ''0123456789'' ! d"

function digits10 :: "nat \<Rightarrow> string" where
  "digits10 n = (if n < 10 then [digit_char n] else digits10 (n div 10) @ [digit_char (n mod 10)])"
  by pat_completeness auto
termination
  by (relation "measure id") auto

declare digits10.simps [simp del]

definition str_int :: "int \<Rightarrow> string" where
  "str_int i = (if i < 0 then CHR ''-'' # digits10 (nat (- i)) else digits10 (nat i))"

subsection \<open>Arithmetic on a \<^verbatim>\<open>float\<close>\<close>

text \<open>
  \<open>pw b e\<close> is \<open>b\<close> to the power \<open>e\<close>, \<open>count_digits b n\<close> the number of digits of \<open>n\<close> in
  base \<open>b\<close>, and \<open>ilog b q\<close>, for \<open>q > 0\<close>, the \<open>e\<close> with \<open>pw b e \<le> q < pw b (e + 1)\<close>.
\<close>

definition pw :: "int \<Rightarrow> int \<Rightarrow> rat" where
  "pw b e = (if 0 \<le> e then of_int b ^ nat e else 1 / of_int b ^ nat (- e))"

function count_digits :: "int \<Rightarrow> int \<Rightarrow> int" where
  "count_digits b n = (if 0 < n \<and> 1 < b then count_digits b (n div b) + 1 else 0)"
  by pat_completeness auto
termination
  by (relation "measure (\<lambda>(b, n). nat n)") (auto simp: int_div_less_self)

declare count_digits.simps [simp del]

definition ilog :: "int \<Rightarrow> rat \<Rightarrow> int" where
  "ilog b q = (if 1 \<le> q then count_digits b \<lfloor>q\<rfloor> - 1
               else - count_digits b (\<lceil>1 / q\<rceil> - 1))"

text \<open>
  Rounding to the nearest double, ties to the even significand: 53 bits, and the spacing
  \<open>pw 2 (- 1074)\<close> below the normal range. No result of the function comes near the largest
  double, so \<open>rn\<close> does not bound the exponent from above.
\<close>

definition round_half_even :: "rat \<Rightarrow> int" where
  "round_half_even m =
     (let f = \<lfloor>m\<rfloor>; d = m - of_int f
      in if d < 1 / 2 then f else if 1 / 2 < d then f + 1 else if even f then f else f + 1)"

definition rn :: "rat \<Rightarrow> rat" where
  "rn q = (if q = 0 then 0
           else (let p = max (ilog 2 \<bar>q\<bar> - 52) (- 1074)
                 in sgn q * of_int (round_half_even (\<bar>q\<bar> / pw 2 p)) * pw 2 p))"

text \<open>
  \<^verbatim>\<open>v // 60\<close> and \<^verbatim>\<open>v % 60\<close> on a float, as CPython computes the pair: the remainder of
  \<^verbatim>\<open>fmod\<close> (exact, with the sign of \<^verbatim>\<open>v\<close>), the quotient \<^verbatim>\<open>(v - mod) / 60\<close> with both
  operations rounded, the adjustment of a negative remainder, and the floor of the quotient.
  On an infinity or the NaN both are the NaN.
\<close>

definition float_divmod60 :: "pyfloat \<Rightarrow> pyfloat \<times> pyfloat" where
  "float_divmod60 v =
     (case v of
        Finite vx \<Rightarrow>
          (let mod0 = vx - 60 * (if 0 \<le> vx then of_int \<lfloor>vx / 60\<rfloor> else of_int \<lceil>vx / 60\<rceil>);
               div0 = rn (rn (vx - mod0) / 60);
               mod1 = (if mod0 < 0 then rn (mod0 + 60) else mod0);
               div1 = (if mod0 < 0 then rn (div0 - 1) else div0);
               fl = of_int \<lfloor>div1\<rfloor>;
               floordiv = (if div1 = 0 then 0 else if 1 / 2 < rn (div1 - fl) then rn (fl + 1) else fl)
           in (Finite floordiv, Finite mod1))
      | _ \<Rightarrow> (NaN, NaN))"

subsection \<open>Rendering of a \<^verbatim>\<open>float\<close> in an f-string\<close>

text \<open>
  \<^verbatim>\<open>f"{x}"\<close> on a float is \<^verbatim>\<open>repr(x)\<close>: the shortest string of decimal digits that reads back
  as \<open>x\<close>, the nearest to \<open>x\<close> among the shortest, written with an exponent when the decimal
  point would stand more than 16 places after the first digit or more than 4 places before
  it, and with \<^verbatim>\<open>.0\<close> appended to a whole number. \<open>candidate q k\<close> looks for \<open>k\<close> digits: the
  result is the digits as an integer and the exponent of ten that scales it.
\<close>

definition candidate :: "rat \<Rightarrow> nat \<Rightarrow> (int \<times> int) option" where
  "candidate q k =
     (let x = ilog 10 q - int k + 1; s = pw 10 x;
          lo = \<lfloor>q / s\<rfloor>; hi = lo + 1;
          ok_lo = (rn (of_int lo * s) = q); ok_hi = (rn (of_int hi * s) = q)
      in if ok_lo \<and> ok_hi
         then (if q - of_int lo * s < of_int hi * s - q then Some (lo, x)
               else if of_int hi * s - q < q - of_int lo * s then Some (hi, x)
               else if even lo then Some (lo, x) else Some (hi, x))
         else if ok_lo then Some (lo, x)
         else if ok_hi then Some (hi, x)
         else None)"

fun shortest :: "rat \<Rightarrow> nat list \<Rightarrow> int \<times> int" where
  "shortest q [] = (\<lfloor>q / pw 10 (ilog 10 q - 16)\<rfloor>, ilog 10 q - 16)"
| "shortest q (k # ks) = (case candidate q k of Some r \<Rightarrow> r | None \<Rightarrow> shortest q ks)"

definition strip_zeros :: "string \<Rightarrow> string" where
  "strip_zeros ds = rev (dropWhile (\<lambda>c. c = CHR ''0'') (rev ds))"

definition repr_positive :: "rat \<Rightarrow> string" where
  "repr_positive q =
     (let (n, x) = shortest q [1..<18];
          all = str_int n;
          ds = strip_zeros all;
          decpt = x + int (length all);
          nd = int (length ds)
      in if decpt \<le> - 4 \<or> 16 < decpt
         then (let ex = decpt - 1
               in take 1 ds @ (if 1 < nd then CHR ''.'' # drop 1 ds else [])
                  @ ''e'' @ (if ex < 0 then ''-'' else ''+'')
                  @ (if \<bar>ex\<bar> < 10 then ''0'' else []) @ str_int \<bar>ex\<bar>)
         else if decpt \<le> 0 then ''0.'' @ replicate (nat (- decpt)) CHR ''0'' @ ds
         else if decpt < nd then take (nat decpt) ds @ CHR ''.'' # drop (nat decpt) ds
         else ds @ replicate (nat (decpt - nd)) CHR ''0'' @ ''.0'')"

definition float_repr :: "pyfloat \<Rightarrow> string" where
  "float_repr v =
     (case v of
        Finite q \<Rightarrow> if q = 0 then ''0.0''
                    else if q < 0 then CHR ''-'' # repr_positive (- q) else repr_positive q
      | PosInf \<Rightarrow> ''inf''
      | NegInf \<Rightarrow> ''-inf''
      | NaN \<Rightarrow> ''nan'')"

subsection \<open>Numbers\<close>

text \<open>
  The number a document is in arithmetic and in comparisons with an \<^verbatim>\<open>int\<close>: an \<^verbatim>\<open>int\<close>, a
  \<^verbatim>\<open>float\<close>, or a \<^verbatim>\<open>bool\<close>, which is a subclass of \<^verbatim>\<open>int\<close> (\<^verbatim>\<open>True == 1\<close>, \<^verbatim>\<open>False == 0\<close>);
  nothing else is a number.
\<close>

datatype pynum = PInt int | PFloat pyfloat

fun as_num :: "json \<Rightarrow> pynum option" where
  "as_num (JInt i) = Some (PInt i)"
| "as_num (JBool b) = Some (PInt (if b then 1 else 0))"
| "as_num (JFloat f) = Some (PFloat f)"
| "as_num _ = None"

text \<open>\<^verbatim>\<open>x == n\<close> and \<^verbatim>\<open>x > n\<close> on a number and an \<^verbatim>\<open>int\<close>: exact, and false on the NaN.\<close>

fun num_eq_int :: "pynum \<Rightarrow> int \<Rightarrow> bool" where
  "num_eq_int (PInt i) n = (i = n)"
| "num_eq_int (PFloat (Finite q)) n = (q = of_int n)"
| "num_eq_int (PFloat _) n = False"

fun num_gt_int :: "pynum \<Rightarrow> int \<Rightarrow> bool" where
  "num_gt_int (PInt i) n = (n < i)"
| "num_gt_int (PFloat (Finite q)) n = (of_int n < q)"
| "num_gt_int (PFloat PosInf) n = True"
| "num_gt_int (PFloat _) n = False"

text \<open>\<^verbatim>\<open>v == n\<close> never raises; \<^verbatim>\<open>v > n\<close> raises unless \<^verbatim>\<open>v\<close> is a number.\<close>

definition py_eq_int :: "json \<Rightarrow> int \<Rightarrow> bool" where
  "py_eq_int v n = (case as_num v of None \<Rightarrow> False | Some x \<Rightarrow> num_eq_int x n)"

definition py_gt_int :: "json \<Rightarrow> int \<Rightarrow> exn + bool" where
  "py_gt_int v n = (case as_num v of None \<Rightarrow> Inl TypeError | Some x \<Rightarrow> Inr (num_gt_int x n))"

text \<open>\<^verbatim>\<open>x // 60\<close>, \<^verbatim>\<open>x % 60\<close> and \<^verbatim>\<open>f"{x}"\<close> on a number.\<close>

fun floordiv60 :: "pynum \<Rightarrow> pynum" where
  "floordiv60 (PInt i) = PInt (i div 60)"
| "floordiv60 (PFloat f) = PFloat (fst (float_divmod60 f))"

fun mod60 :: "pynum \<Rightarrow> pynum" where
  "mod60 (PInt i) = PInt (i mod 60)"
| "mod60 (PFloat f) = PFloat (snd (float_divmod60 f))"

fun py_str :: "pynum \<Rightarrow> string" where
  "py_str (PInt i) = str_int i"
| "py_str (PFloat f) = float_repr f"

section \<open>Resolving the captured report (lines 102 to 117)\<close>

text \<open>Lines 111 to 114: the two renderings of a remaining time.\<close>

definition format_remaining :: "pynum \<Rightarrow> pynum \<Rightarrow> string" where
  "format_remaining hours minutes =
     (if num_gt_int hours 0 then py_str hours @ ''h '' @ py_str minutes @ ''m''
      else py_str minutes @ '' minutes'')"

text \<open>
  Lines 102 to 117, the body of the \<^verbatim>\<open>elif status_data:\<close> branch. The two operands of
  \<^verbatim>\<open>or\<close> and of \<^verbatim>\<open>and\<close> are evaluated left to right and short-circuit; in line 108 the
  comparison \<^verbatim>\<open>remaining_time > 0\<close> is the left operand, so it is evaluated whenever line 106
  was false.
\<close>

definition classify :: "json \<Rightarrow> exn + string" where
  "classify status_data =
     (case py_get status_data ''print'' (JDict []) of
        Inl e \<Rightarrow> Inl e
      | Inr print_data \<Rightarrow>
     (case py_get print_data ''mc_remaining_time'' (JInt (- 1)) of
        Inl e \<Rightarrow> Inl e
      | Inr remaining_time \<Rightarrow>
     (case py_get print_data ''gcode_state'' (JStr []) of
        Inl e \<Rightarrow> Inl e
      | Inr gcode_state \<Rightarrow>
        if py_in_strs gcode_state [''FINISH'', ''FAILED'', ''IDLE'']
           \<or> (py_eq_str gcode_state ''RUNNING'' \<and> py_eq_int remaining_time 0)
        then Inr ''Done''
        else (case py_gt_int remaining_time 0 of
                Inl e \<Rightarrow> Inl e
              | Inr positive \<Rightarrow>
                  if positive \<and> py_eq_str gcode_state ''RUNNING''
                  then (case as_num remaining_time of
                          None \<Rightarrow> Inl TypeError
                        | Some x \<Rightarrow> Inr (format_remaining (floordiv60 x) (mod60 x)))
                  else Inr ''Unknown''))))"

text \<open>A report as the device sends it: a dict whose \<^verbatim>\<open>print\<close> entry is the dict \<open>pd\<close>.\<close>

definition report :: "(string \<times> json) list \<Rightarrow> json" where
  "report pd = JDict [(''print'', JDict pd)]"

subsection \<open>Vocabulary for the statements about a report\<close>

text \<open>The \<^verbatim>\<open>int\<close> a document is, when it is an \<^verbatim>\<open>int\<close> or a \<^verbatim>\<open>bool\<close>.\<close>

fun as_int :: "json \<Rightarrow> int option" where
  "as_int (JInt i) = Some i"
| "as_int (JBool b) = Some (if b then 1 else 0)"
| "as_int _ = None"


section \<open>The session: \<^verbatim>\<open>get_bambu_printer_status\<close>\<close>

text \<open>
  The calls made on the \<^verbatim>\<open>paho.mqtt\<close> client, in the order in which they are made. The client
  is a library object; a call is recorded, not interpreted. \<^verbatim>\<open>Publish\<close> carries the document
  that \<^verbatim>\<open>json.dumps\<close> serialises. \<^verbatim>\<open>Loop_stop\<close> is recorded when the call returns, that is
  after it has joined the network thread.
\<close>

datatype action =
    Client string
  | Tls_set
  | Tls_insecure_set bool
  | Username_pw_set string string
  | Connect_async string int int
  | Loop_start
  | Subscribe string
  | Publish string json
  | Loop_stop
  | Disconnect

text \<open>The two diagnostics that \<^verbatim>\<open>on_message\<close> prints (lines 55 and 57).\<close>

datatype diag = Decode_failed | Processing_error exn

text \<open>
  The three variables the callbacks share with the function body (lines 28 to 30), the client
  calls made so far and the lines printed so far.
\<close>

record session =
  status_data :: "json option"
  message_received_event :: bool
  connection_error :: "string option"
  calls :: "action list"
  printed :: "diag list"

definition publish_topic :: "string \<Rightarrow> string" where
  "publish_topic serial = ''device/'' @ serial @ ''/request''"

definition subscribe_topic :: "string \<Rightarrow> string" where
  "subscribe_topic serial = ''device/'' @ serial @ ''/report''"

definition status_payload :: json where
  "status_payload =
     JDict [(''pushing'', JDict [(''sequence_id'', JStr ''0''), (''command'', JStr ''pushall'')])]"

subsection \<open>The callbacks (lines 32 to 68)\<close>

definition on_connect :: "string \<Rightarrow> int \<Rightarrow> session \<Rightarrow> session" where
  "on_connect serial rc s =
     (if rc = 0
      then s\<lparr>calls := calls s @ [Subscribe (subscribe_topic serial),
                                 Publish (publish_topic serial) status_payload]\<rparr>
      else s\<lparr>connection_error := Some (''Failed to connect, return code '' @ str_int rc),
             message_received_event := True\<rparr>)"

text \<open>The two \<^verbatim>\<open>except\<close> clauses of \<^verbatim>\<open>on_message\<close>: the exception is printed and dropped.\<close>

definition handled :: "exn \<Rightarrow> session \<Rightarrow> session" where
  "handled e s =
     s\<lparr>printed := printed s @ [if e = JSONDecodeError then Decode_failed else Processing_error e]\<rparr>"

text \<open>
  \<^verbatim>\<open>on_message\<close> receives the outcome of \<^verbatim>\<open>json.loads(msg.payload.decode("utf-8"))\<close>: the
  exception raised or the document returned.
\<close>

definition on_message :: "exn + json \<Rightarrow> session \<Rightarrow> session" where
  "on_message loaded s =
     (case loaded of
        Inl e \<Rightarrow> handled e s
      | Inr payload \<Rightarrow>
          (case py_contains ''print'' payload of
             Inl e \<Rightarrow> handled e s
           | Inr found \<Rightarrow>
               if found then s\<lparr>status_data := Some payload, message_received_event := True\<rparr>
               else s))"

definition on_disconnect :: "int \<Rightarrow> session \<Rightarrow> session" where
  "on_disconnect rc s = s"

definition on_connect_fail :: "session \<Rightarrow> session" where
  "on_connect_fail s =
     s\<lparr>connection_error := Some ''MQTT connection failed.'', message_received_event := True\<rparr>"

subsection \<open>The network thread\<close>

text \<open>
  Between \<^verbatim>\<open>loop_start\<close> and the return of \<^verbatim>\<open>loop_stop\<close> the client's thread runs the
  callbacks, one after the other. What it delivers is not decided by this program: it is a
  list of events.
\<close>

datatype event =
    Connack int
  | Connect_failed
  | Message "exn + json"
  | Disconnected int

fun callback :: "string \<Rightarrow> event \<Rightarrow> session \<Rightarrow> session" where
  "callback serial (Connack rc) s = on_connect serial rc s"
| "callback serial Connect_failed s = on_connect_fail s"
| "callback serial (Message loaded) s = on_message loaded s"
| "callback serial (Disconnected rc) s = on_disconnect rc s"

fun network_loop :: "string \<Rightarrow> event list \<Rightarrow> session \<Rightarrow> session" where
  "network_loop serial [] s = s"
| "network_loop serial (e # es) s = network_loop serial es (callback serial e s)"

text \<open>
  What the surroundings contribute to one call: the uuid, the exception (if any) raised by
  \<^verbatim>\<open>connect_async\<close>, by \<^verbatim>\<open>loop_start\<close> and during \<^verbatim>\<open>wait\<close>, the events delivered before
  \<^verbatim>\<open>wait\<close> returns, and the events delivered after that and before \<^verbatim>\<open>loop_stop\<close> has joined
  the thread. \<^verbatim>\<open>wait\<close> returns the flag as the first list has left it: \<^verbatim>\<open>False\<close> is the
  timeout. The calls before the \<^verbatim>\<open>try\<close> (lines 71 to 80), the calls made inside the
  callbacks, \<^verbatim>\<open>loop_stop\<close> and \<^verbatim>\<open>disconnect\<close> are taken not to raise.
\<close>

record env =
  uuid4 :: string
  connect_async_raises :: "exn option"
  loop_start_raises :: "exn option"
  wait_raises :: "exn option"
  during_wait :: "event list"
  after_wait :: "event list"

subsection \<open>The function body\<close>

text \<open>Lines 89 to 91, the \<^verbatim>\<open>finally\<close> block.\<close>

definition teardown :: "session \<Rightarrow> session" where
  "teardown s = s\<lparr>calls := calls s @ [Loop_stop, Disconnect]\<rparr>"

text \<open>\<^verbatim>\<open>if connection_error:\<close> on a variable that is \<^verbatim>\<open>None\<close> or a str.\<close>

definition truthy_str :: "string option \<Rightarrow> bool" where
  "truthy_str x = (case x of None \<Rightarrow> False | Some m \<Rightarrow> m \<noteq> [])"

text \<open>Lines 93 to 120.\<close>

definition resolve :: "session \<Rightarrow> bool \<Rightarrow> exn + string" where
  "resolve s event_triggered =
     (if truthy_str (connection_error s) then Inr ''Unknown''
      else if \<not> event_triggered then Inr ''Unknown''
      else (case status_data s of
              None \<Rightarrow> Inr ''Unknown''
            | Some d \<Rightarrow> if truthy d then classify d else Inr ''Unknown''))"

text \<open>
  Lines 22 to 120. The result is what the call returns (\<open>Inr\<close>) or raises (\<open>Inl\<close>), with
  the session as the call leaves it. The bound of the wait does not compute anything: which
  events fall inside it is the environment's \<open>during_wait\<close>.
\<close>

definition get_bambu_printer_status ::
    "string \<Rightarrow> string \<Rightarrow> string \<Rightarrow> int \<Rightarrow> env \<Rightarrow> (exn + string) \<times> session" where
  "get_bambu_printer_status ip serial access_code timeout env =
     (let s0 = \<lparr>status_data = None, message_received_event = False, connection_error = None,
                calls = [Client (''bambu-status-checker-'' @ uuid4 env), Tls_set,
                         Tls_insecure_set True, Username_pw_set ''bblp'' access_code],
                printed = []\<rparr>;
          s1 = s0\<lparr>calls := calls s0 @ [Connect_async ip 8883 60]\<rparr>
      in case connect_async_raises env of
           Some e \<Rightarrow> (Inl e, teardown s1)
         | None \<Rightarrow>
             (let s2 = s1\<lparr>calls := calls s1 @ [Loop_start]\<rparr>
              in case loop_start_raises env of
                   Some e \<Rightarrow> (Inl e, teardown s2)
                 | None \<Rightarrow>
                     (let s3 = network_loop serial (during_wait env) s2;
                          event_triggered = message_received_event s3;
                          s4 = teardown (network_loop serial (after_wait env) s3)
                      in case wait_raises env of
                           Some e \<Rightarrow> (Inl e, s4)
                         | None \<Rightarrow> (resolve s4 event_triggered, s4))))"

subsection \<open>Vocabulary for the statements\<close>

text \<open>An event whose callback records a connection error.\<close>

fun connect_failure :: "event \<Rightarrow> bool" where
  "connect_failure (Connack rc) = (rc \<noteq> 0)"
| "connect_failure Connect_failed = True"
| "connect_failure _ = False"

text \<open>A message that passes the test of line 49.\<close>

fun qualifying :: "event \<Rightarrow> bool" where
  "qualifying (Message (Inr payload)) = (py_contains ''print'' payload = Inr True)"
| "qualifying _ = False"

text \<open>The client calls that the callback of one event makes, and those of a list of events.\<close>

fun sent1 :: "string \<Rightarrow> event \<Rightarrow> action list" where
  "sent1 serial (Connack rc) =
     (if rc = 0
      then [Subscribe (subscribe_topic serial), Publish (publish_topic serial) status_payload]
      else [])"
| "sent1 serial _ = []"

primrec sent :: "string \<Rightarrow> event list \<Rightarrow> action list" where
  "sent serial [] = []"
| "sent serial (e # es) = sent1 serial e @ sent serial es"

text \<open>An environment in which no library call raises.\<close>

definition quiet :: "event list \<Rightarrow> event list \<Rightarrow> env" where
  "quiet es es' = \<lparr>uuid4 = ''0'', connect_async_raises = None, loop_start_raises = None,
                   wait_raises = None, during_wait = es, after_wait = es'\<rparr>"

text \<open>The session at the moment \<^verbatim>\<open>loop_start\<close> has returned.\<close>

definition started :: "string \<Rightarrow> string \<Rightarrow> env \<Rightarrow> session" where
  "started ip access_code env =
     \<lparr>status_data = None, message_received_event = False, connection_error = None,
      calls = [Client (''bambu-status-checker-'' @ uuid4 env), Tls_set, Tls_insecure_set True,
               Username_pw_set ''bblp'' access_code, Connect_async ip 8883 60, Loop_start],
      printed = []\<rparr>"

section \<open>Lemmas\<close>

subsection \<open>The report resolved, for a dict with a dict under \<^verbatim>\<open>print\<close>\<close>

lemma classify_dict:
  assumes "map_of kvs ''print'' = Some (JDict pd)"
  shows "classify (JDict kvs) =
     (let remaining_time = (case map_of pd ''mc_remaining_time'' of None \<Rightarrow> JInt (- 1) | Some v \<Rightarrow> v);
          gcode_state = (case map_of pd ''gcode_state'' of None \<Rightarrow> JStr [] | Some v \<Rightarrow> v)
      in if gcode_state \<in> {JStr ''FINISH'', JStr ''FAILED'', JStr ''IDLE''}
            \<or> (gcode_state = JStr ''RUNNING'' \<and> py_eq_int remaining_time 0)
         then Inr ''Done''
         else (case as_num remaining_time of
                 None \<Rightarrow> Inl TypeError
               | Some x \<Rightarrow> if num_gt_int x 0 \<and> gcode_state = JStr ''RUNNING''
                           then Inr (format_remaining (floordiv60 x) (mod60 x))
                           else Inr ''Unknown''))"
  using assms
  by (simp add: classify_def py_eq_str_def py_gt_int_def Let_def split: option.splits)

lemma as_int_as_num: "as_int v = Some r \<Longrightarrow> as_num v = Some (PInt r)"
  by (cases v) auto


subsection \<open>What the callbacks do to each variable\<close>

lemma network_loop_append:
  "network_loop serial (es @ es') s = network_loop serial es' (network_loop serial es s)"
  by (induction es arbitrary: s) simp_all

lemma calls_callback: "calls (callback serial e s) = calls s @ sent1 serial e"
  by (cases e)
     (simp_all add: on_connect_def on_connect_fail_def on_disconnect_def on_message_def
        handled_def split: sum.splits)

lemma calls_network_loop: "calls (network_loop serial es s) = calls s @ sent serial es"
  by (induction es arbitrary: s) (simp_all add: calls_callback)

lemma event_callback:
  "message_received_event (callback serial e s) =
     (message_received_event s \<or> connect_failure e \<or> qualifying e)"
  by (cases e)
     (auto simp: on_connect_def on_connect_fail_def on_disconnect_def on_message_def
        handled_def split: sum.splits)

lemma event_network_loop:
  "message_received_event (network_loop serial es s) =
     (message_received_event s \<or> (\<exists>e\<in>set es. connect_failure e \<or> qualifying e))"
  by (induction es arbitrary: s) (auto simp: event_callback)

lemma error_callback:
  "truthy_str (connection_error (callback serial e s)) =
     (truthy_str (connection_error s) \<or> connect_failure e)"
  by (cases e)
     (auto simp: on_connect_def on_connect_fail_def on_disconnect_def on_message_def
        handled_def truthy_str_def split: sum.splits)

lemma error_network_loop:
  "truthy_str (connection_error (network_loop serial es s)) =
     (truthy_str (connection_error s) \<or> (\<exists>e\<in>set es. connect_failure e))"
  by (induction es arbitrary: s) (auto simp: error_callback)

lemma status_callback_other:
  "\<not> qualifying e \<Longrightarrow> status_data (callback serial e s) = status_data s"
  by (cases e)
     (auto simp: on_connect_def on_connect_fail_def on_disconnect_def on_message_def
        handled_def split: sum.splits)

lemma status_network_loop_other:
  "\<forall>e\<in>set es. \<not> qualifying e \<Longrightarrow> status_data (network_loop serial es s) = status_data s"
  by (induction es arbitrary: s) (simp_all add: status_callback_other)

lemma status_network_loop_last:
  assumes "py_contains ''print'' p = Inr True" and "\<forall>e\<in>set es2. \<not> qualifying e"
  shows "status_data (network_loop serial (es1 @ Message (Inr p) # es2) s) = Some p"
  using assms
  by (simp add: network_loop_append status_network_loop_other on_message_def)

lemma contains_truthy: "py_contains ''print'' p = Inr True \<Longrightarrow> truthy p"
  by (cases p) auto

subsection \<open>The function body unfolded\<close>

lemma sent_append: "sent serial (es @ es') = sent serial es @ sent serial es'"
  by (induction es) simp_all

lemma sent1_only: "a \<in> set (sent1 serial e) \<Longrightarrow>
    a = Subscribe (subscribe_topic serial) \<or> a = Publish (publish_topic serial) status_payload"
  by (cases e) (auto split: if_splits)

lemma sent_only: "a \<in> set (sent serial es) \<Longrightarrow>
    a = Subscribe (subscribe_topic serial) \<or> a = Publish (publish_topic serial) status_payload"
  by (induction es) (auto dest: sent1_only)

text \<open>The calls of one callback are none, or the subscription and then the request.\<close>

lemma sent1_cases:
  "sent1 serial e = []
   \<or> sent1 serial e = [Subscribe (subscribe_topic serial), Publish (publish_topic serial) status_payload]"
  by (cases e) simp_all

lemma truthy_str_None: "truthy_str None = False"
  by (simp add: truthy_str_def)

lemma fetch_unfold:
  assumes "connect_async_raises env = None" "loop_start_raises env = None"
  shows "get_bambu_printer_status ip serial access_code timeout env =
     (let s4 = teardown (network_loop serial (during_wait env @ after_wait env) (started ip access_code env))
      in (case wait_raises env of
            Some e \<Rightarrow> Inl e
          | None \<Rightarrow> resolve s4 (message_received_event
                                 (network_loop serial (during_wait env) (started ip access_code env))),
          s4))"
  using assms
  by (simp add: get_bambu_printer_status_def started_def Let_def network_loop_append
        split: option.splits)

lemma calls_result:
  "calls (snd (get_bambu_printer_status ip serial access_code timeout env)) =
     [Client (''bambu-status-checker-'' @ uuid4 env), Tls_set, Tls_insecure_set True,
      Username_pw_set ''bblp'' access_code, Connect_async ip 8883 60]
     @ (if connect_async_raises env = None
        then Loop_start # (if loop_start_raises env = None
                           then sent serial (during_wait env @ after_wait env) else [])
        else [])
     @ [Loop_stop, Disconnect]"
  by (simp add: get_bambu_printer_status_def Let_def teardown_def calls_network_loop
        sent_append split: option.splits)

lemma status_teardown: "status_data (teardown s) = status_data s"
  by (simp add: teardown_def)

lemma error_teardown: "connection_error (teardown s) = connection_error s"
  by (simp add: teardown_def)

lemma event_teardown: "message_received_event (teardown s) = message_received_event s"
  by (simp add: teardown_def)

lemma result_quiet:
  assumes "connect_async_raises env = None" "loop_start_raises env = None" "wait_raises env = None"
  shows "fst (get_bambu_printer_status ip serial access_code timeout env) =
     (if \<exists>e\<in>set (during_wait env @ after_wait env). connect_failure e then Inr ''Unknown''
      else if \<forall>e\<in>set (during_wait env). \<not> qualifying e then Inr ''Unknown''
      else (case status_data (snd (get_bambu_printer_status ip serial access_code timeout env)) of
              None \<Rightarrow> Inr ''Unknown''
            | Some d \<Rightarrow> if truthy d then classify d else Inr ''Unknown''))"
proof -
  let ?s2 = "started ip access_code env"
  have s2: "\<not> message_received_event ?s2" "connection_error ?s2 = None"
    by (simp_all add: started_def)
  show ?thesis
    unfolding fetch_unfold [OF assms(1,2)] Let_def assms(3) resolve_def
    using s2
    by (simp add: status_teardown error_teardown error_network_loop event_network_loop
          truthy_str_None)
qed

subsection \<open>Splitting the list of client calls at a publish\<close>

lemma sent_split:
  assumes "sent serial es = xs @ Publish t p # ys"
  shows "(\<exists>zs. xs = zs @ [Subscribe (subscribe_topic serial)])
         \<and> t = publish_topic serial \<and> p = status_payload"
proof -
  have "Publish t p \<in> set (sent serial es)"
    using assms by simp
  then have tp: "t = publish_topic serial \<and> p = status_payload"
    using sent_only by blast
  have "\<exists>zs. xs = zs @ [Subscribe (subscribe_topic serial)]"
    using assms
  proof (induction es arbitrary: xs)
    case Nil
    then show ?case by simp
  next
    case (Cons e es)
    consider (none) "sent1 serial e = []"
      | (both) "sent1 serial e
                 = [Subscribe (subscribe_topic serial), Publish (publish_topic serial) status_payload]"
      using sent1_cases by blast
    then show ?case
    proof cases
      case none
      with Cons show ?thesis by simp
    next
      case both
      with Cons.prems have eq: "Subscribe (subscribe_topic serial)
          # Publish (publish_topic serial) status_payload # sent serial es = xs @ Publish t p # ys"
        by simp
      show ?thesis
      proof (cases xs)
        case Nil
        with eq show ?thesis by simp
      next
        case outer: (Cons x xs')
        with eq have x: "x = Subscribe (subscribe_topic serial)"
          and eq': "Publish (publish_topic serial) status_payload # sent serial es
                      = xs' @ Publish t p # ys"
          by simp_all
        show ?thesis
        proof (cases xs')
          case Nil
          with outer x show ?thesis by simp
        next
          case inner: (Cons y xs'')
          with eq' have "sent serial es = xs'' @ Publish t p # ys" by simp
          from Cons.IH [OF this] obtain zs where "xs'' = zs @ [Subscribe (subscribe_topic serial)]" ..
          with outer inner show ?thesis by (intro exI [of _ "x # y # zs"]) simp
        qed
      qed
    qed
  qed
  with tp show ?thesis by simp
qed

lemma split_append_right:
  assumes "tr @ [Loop_stop, Disconnect] = xs @ Publish t p # ys"
  shows "\<exists>ys'. tr = xs @ Publish t p # ys'"
proof -
  have "ys \<noteq> []" using assms by (cases ys rule: rev_cases) auto
  then obtain ys1 b where ys: "ys = ys1 @ [b]" by (cases ys rule: rev_cases) auto
  show ?thesis
  proof (cases ys1 rule: rev_cases)
    case Nil
    with ys assms have "tr @ [Loop_stop, Disconnect] = (xs @ [Publish t p]) @ [b]" by simp
    then have "tr @ [Loop_stop] = xs @ [Publish t p]" 
      by (metis append.assoc append_Cons append_Nil butlast_snoc)
    then show ?thesis by simp
  next
    case (snoc ys2 c)
    with ys assms have "(tr @ [Loop_stop]) @ [Disconnect] = (xs @ Publish t p # ys2 @ [c]) @ [b]" by simp
    then have "tr @ [Loop_stop] = xs @ Publish t p # ys2 @ [c]" by (simp only: append1_eq_conv)
    then have "tr @ [Loop_stop] = (xs @ Publish t p # ys2) @ [c]" by simp
    then have "tr = xs @ Publish t p # ys2" by (simp only: append1_eq_conv)
    then show ?thesis by blast
  qed
qed

lemma sent_connack:
  "Connack 0 \<in> set es \<Longrightarrow> \<exists>xs ys. sent serial es
      = xs @ Subscribe (subscribe_topic serial) # Publish (publish_topic serial) status_payload # ys"
proof (induction es)
  case Nil
  then show ?case by simp
next
  case (Cons e es)
  show ?case
  proof (cases "e = Connack 0")
    case True
    then show ?thesis by (intro exI [of _ "[]"] exI [of _ "sent serial es"]) simp
  next
    case False
    with Cons obtain xs ys where "sent serial es
        = xs @ Subscribe (subscribe_topic serial) # Publish (publish_topic serial) status_payload # ys"
      by auto
    then have "sent serial (e # es) = (sent1 serial e @ xs)
        @ Subscribe (subscribe_topic serial) # Publish (publish_topic serial) status_payload # ys"
      by simp
    then show ?thesis by blast
  qed
qed

lemma split_append_left:
  "Publish t p \<notin> set A \<Longrightarrow> A @ M = xs @ Publish t p # ys
     \<Longrightarrow> \<exists>xs'. xs = A @ xs' \<and> M = xs' @ Publish t p # ys"
proof (induction A arbitrary: xs)
  case Nil
  then show ?case by simp
next
  case (Cons a A)
  show ?case
  proof (cases xs)
    case Nil
    with Cons.prems show ?thesis by simp
  next
    case (Cons x xs0)
    with Cons.prems have "a = x" "A @ M = xs0 @ Publish t p # ys" "Publish t p \<notin> set A"
      by simp_all
    with Cons.IH [of xs0] obtain xs' where "xs0 = A @ xs'" "M = xs' @ Publish t p # ys"
      by blast
    with Cons \<open>a = x\<close> show ?thesis by simp
  qed
qed

subsection \<open>Evaluation on concrete inputs\<close>

text \<open>
  The arithmetic and the rendering of a float at some doubles, with the values CPython
  gives: \<^verbatim>\<open>repr(0.1)\<close>, \<^verbatim>\<open>repr(1e16)\<close>, \<^verbatim>\<open>repr(1e15)\<close>, \<^verbatim>\<open>divmod(1e17, 60)\<close>,
  \<^verbatim>\<open>divmod(-0.5, 60)\<close> and \<^verbatim>\<open>divmod(inf, 60)\<close>.
\<close>

lemma float_examples:
  "float_repr (Finite (3602879701896397 / 36028797018963968)) = ''0.1''"
  "float_repr (Finite 10000000000000000) = ''1e+16''"
  "float_repr (Finite 1000000000000000) = ''1000000000000000.0''"
  "float_divmod60 (Finite 100000000000000000) = (Finite 1666666666666666, Finite 40)"
  "float_divmod60 (Finite (- 1 / 2)) = (Finite (- 1), Finite (119 / 2))"
  "float_divmod60 PosInf = (NaN, NaN)"
  by code_simp+

lemma str_int_small: "str_int 2 = ''2''" "str_int 5 = ''5''" "str_int 45 = ''45''"
  by code_simp+

lemmas model_defs = get_bambu_printer_status_def quiet_def Let_def teardown_def resolve_def
  on_connect_def on_message_def on_connect_fail_def on_disconnect_def handled_def
  classify_def report_def truthy_str_def py_eq_str_def py_eq_int_def py_gt_int_def
  format_remaining_def str_int_small publish_topic_def subscribe_topic_def

text \<open>
  Messages that \<^verbatim>\<open>on_message\<close> leaves alone: those that do not parse, a dict without the key
  \<^verbatim>\<open>print\<close>, and \<^verbatim>\<open>null\<close>, a boolean or a number.
\<close>

lemma on_message_ignores:
  assumes "(\<exists>e. loaded = Inl e)
           \<or> (\<exists>kvs. loaded = Inr (JDict kvs) \<and> map_of kvs ''print'' = None)
           \<or> loaded = Inr JNull \<or> (\<exists>b. loaded = Inr (JBool b)) \<or> (\<exists>i. loaded = Inr (JInt i))
           \<or> (\<exists>f. loaded = Inr (JFloat f))"
  shows "status_data (on_message loaded s) = status_data s
         \<and> message_received_event (on_message loaded s) = message_received_event s
         \<and> connection_error (on_message loaded s) = connection_error s
         \<and> calls (on_message loaded s) = calls s"
  using assms by (auto simp: on_message_def handled_def)

section \<open>The report resolved\<close>

text \<open>
  Claim C3. A report whose \<^verbatim>\<open>gcode_state\<close> is \<^verbatim>\<open>FINISH\<close>, \<^verbatim>\<open>FAILED\<close> or \<^verbatim>\<open>IDLE\<close> resolves to
  \<^verbatim>\<open>Done\<close> whatever \<^verbatim>\<open>mc_remaining_time\<close> is, a number or not, present or not; a report
  whose \<^verbatim>\<open>gcode_state\<close> is \<^verbatim>\<open>RUNNING\<close> and whose \<^verbatim>\<open>mc_remaining_time\<close> equals 0 (as an
  \<^verbatim>\<open>int\<close>, a \<^verbatim>\<open>bool\<close> or a \<^verbatim>\<open>float\<close>) resolves to \<^verbatim>\<open>Done\<close> as well. Both tests are in the
  condition of line 106, which is evaluated before the comparison of line 108; for the
  first test this shows in the result, since a remaining time that is not a number is never
  compared.
\<close>

theorem done_states:
  assumes "map_of kvs ''print'' = Some (JDict pd)"
      and "map_of pd ''gcode_state'' = Some (JStr g)"
      and "g \<in> {''FINISH'', ''FAILED'', ''IDLE''}
           \<or> (g = ''RUNNING'' \<and> (\<exists>v. map_of pd ''mc_remaining_time'' = Some v \<and> py_eq_int v 0))"
  shows "classify (JDict kvs) = Inr ''Done''"
  using assms(2,3) by (auto simp: classify_dict [OF assms(1)])

theorem done_states_witness:
  "classify (report [(''gcode_state'', JStr ''FINISH''), (''mc_remaining_time'', JStr ''soon'')]) = Inr ''Done''
   \<and> classify (report [(''gcode_state'', JStr ''FAILED''), (''mc_remaining_time'', JInt 125)]) = Inr ''Done''
   \<and> classify (report [(''gcode_state'', JStr ''IDLE'')]) = Inr ''Done''
   \<and> classify (report [(''gcode_state'', JStr ''RUNNING''), (''mc_remaining_time'', JInt 0)]) = Inr ''Done''
   \<and> classify (report [(''gcode_state'', JStr ''RUNNING''), (''mc_remaining_time'', JFloat (Finite 0))])
        = Inr ''Done''"
  using done_states [of "[(''print'', JDict [(''gcode_state'', JStr ''FINISH''), (''mc_remaining_time'', JStr ''soon'')])]"
          "[(''gcode_state'', JStr ''FINISH''), (''mc_remaining_time'', JStr ''soon'')]" "''FINISH''"]
        done_states [of "[(''print'', JDict [(''gcode_state'', JStr ''FAILED''), (''mc_remaining_time'', JInt 125)])]"
          "[(''gcode_state'', JStr ''FAILED''), (''mc_remaining_time'', JInt 125)]" "''FAILED''"]
        done_states [of "[(''print'', JDict [(''gcode_state'', JStr ''IDLE'')])]"
          "[(''gcode_state'', JStr ''IDLE'')]" "''IDLE''"]
        done_states [of "[(''print'', JDict [(''gcode_state'', JStr ''RUNNING''), (''mc_remaining_time'', JInt 0)])]"
          "[(''gcode_state'', JStr ''RUNNING''), (''mc_remaining_time'', JInt 0)]" "''RUNNING''"]
        done_states [of "[(''print'', JDict [(''gcode_state'', JStr ''RUNNING''), (''mc_remaining_time'', JFloat (Finite 0))])]"
          "[(''gcode_state'', JStr ''RUNNING''), (''mc_remaining_time'', JFloat (Finite 0))]" "''RUNNING''"]
  by (simp add: report_def py_eq_int_def)

text \<open>
  Claim C4, as stated: every report whose \<^verbatim>\<open>gcode_state\<close> is \<^verbatim>\<open>RUNNING\<close> and whose
  \<^verbatim>\<open>mc_remaining_time\<close> is strictly positive resolves to a whole number of hours and a number
  of minutes between 0 and 59. A JSON number with a fraction or an exponent is a \<^verbatim>\<open>float\<close>,
  lines 108 to 114 compute on it as on an \<^verbatim>\<open>int\<close>, and the bounds fail: 59.5 gives 59.5
  minutes, 125.5 gives 2.0 hours and 5.5 minutes, and \<^verbatim>\<open>1e999\<close>, which is read as infinity,
  gives NaN minutes.
\<close>

theorem fractional_remaining_time:
  "classify (report [(''gcode_state'', JStr ''RUNNING''),
                     (''mc_remaining_time'', JFloat (Finite (119 / 2)))]) = Inr ''59.5 minutes''
   \<and> mod60 (PFloat (Finite (119 / 2))) = PFloat (Finite (119 / 2))
   \<and> classify (report [(''gcode_state'', JStr ''RUNNING''),
                       (''mc_remaining_time'', JFloat (Finite (251 / 2)))]) = Inr ''2.0h 5.5m''
   \<and> classify (report [(''gcode_state'', JStr ''RUNNING''),
                       (''mc_remaining_time'', JFloat PosInf)]) = Inr ''nan minutes''"
  by code_simp

text \<open>
  Claim C4, amended: a report whose \<^verbatim>\<open>gcode_state\<close> is \<^verbatim>\<open>RUNNING\<close> and whose
  \<^verbatim>\<open>mc_remaining_time\<close> is an integer \<open>r > 0\<close> (an \<^verbatim>\<open>int\<close>, or a \<^verbatim>\<open>bool\<close>, which counts as 0 or
  1) resolves to the rendering of \<open>hours = r // 60\<close> and \<open>minutes = r % 60\<close>:
  \<^verbatim>\<open>"{hours}h {minutes}m"\<close> when \<open>hours > 0\<close>, \<^verbatim>\<open>"{minutes} minutes"\<close> otherwise; \<open>hours\<close> is
  not negative and \<open>minutes\<close> lies between 0 and 59. The witness is the two examples of the
  claim: 125 gives 2 hours 5 minutes, 45 gives 0 hours 45 minutes.
\<close>

theorem remaining_time_split:
  assumes "map_of kvs ''print'' = Some (JDict pd)"
      and "map_of pd ''gcode_state'' = Some (JStr ''RUNNING'')"
      and "map_of pd ''mc_remaining_time'' = Some v"
      and "as_int v = Some r"
      and "0 < r"
  shows "classify (JDict kvs)
           = Inr (if 0 < r div 60 then str_int (r div 60) @ ''h '' @ str_int (r mod 60) @ ''m''
                  else str_int (r mod 60) @ '' minutes'')
         \<and> 0 \<le> r div 60 \<and> 0 \<le> r mod 60 \<and> r mod 60 \<le> 59"
proof -
  have "classify (JDict kvs)
          = Inr (if 0 < r div 60 then str_int (r div 60) @ ''h '' @ str_int (r mod 60) @ ''m''
                 else str_int (r mod 60) @ '' minutes'')"
    using assms(2,3,5) as_int_as_num [OF assms(4)]
    by (simp add: classify_dict [OF assms(1)] py_eq_int_def format_remaining_def)
  moreover have "0 \<le> r div 60"
    using assms(5) by (simp add: pos_imp_zdiv_nonneg_iff)
  moreover have "0 \<le> r mod 60" "r mod 60 \<le> 59"
    using pos_mod_bound [of 60 r] by simp_all
  ultimately show ?thesis by blast
qed

theorem remaining_time_split_witness:
  "classify (report [(''gcode_state'', JStr ''RUNNING''), (''mc_remaining_time'', JInt 125)])
     = Inr ''2h 5m''
   \<and> (125::int) div 60 = 2 \<and> (125::int) mod 60 = 5
   \<and> classify (report [(''gcode_state'', JStr ''RUNNING''), (''mc_remaining_time'', JInt 45)])
     = Inr ''45 minutes''
   \<and> (45::int) div 60 = 0 \<and> (45::int) mod 60 = 45"
  using remaining_time_split [of "[(''print'', JDict [(''gcode_state'', JStr ''RUNNING''), (''mc_remaining_time'', JInt 125)])]"
          "[(''gcode_state'', JStr ''RUNNING''), (''mc_remaining_time'', JInt 125)]" "JInt 125" 125]
        remaining_time_split [of "[(''print'', JDict [(''gcode_state'', JStr ''RUNNING''), (''mc_remaining_time'', JInt 45)])]"
          "[(''gcode_state'', JStr ''RUNNING''), (''mc_remaining_time'', JInt 45)]" "JInt 45" 45]
  by (simp add: report_def str_int_small)




text \<open>
  Claim C6, as stated: resolving a captured payload that has a top-level \<^verbatim>\<open>print\<close> entry
  never raises, whatever the shape of the entry and of its fields. It does raise: a
  \<^verbatim>\<open>print\<close> entry that is \<^verbatim>\<open>null\<close> has no \<^verbatim>\<open>get\<close> (line 103), and a remaining time that is
  \<^verbatim>\<open>null\<close> cannot be compared with 0 (line 108) once line 106 is false.
\<close>

theorem classify_raises:
  "py_contains ''print'' (JDict [(''print'', JNull)]) = Inr True
   \<and> classify (JDict [(''print'', JNull)]) = Inl AttributeError
   \<and> py_contains ''print''
        (report [(''gcode_state'', JStr ''PAUSE''), (''mc_remaining_time'', JNull)]) = Inr True
   \<and> classify (report [(''gcode_state'', JStr ''PAUSE''), (''mc_remaining_time'', JNull)])
        = Inl TypeError"
  by (simp add: classify_def report_def py_eq_str_def py_eq_int_def py_gt_int_def)

text \<open>
  Claim C6, amended. For a captured payload that is a dict:
  \<^item> when its \<^verbatim>\<open>print\<close> entry is a dict and \<^verbatim>\<open>mc_remaining_time\<close> is absent, an \<^verbatim>\<open>int\<close> or a
    \<^verbatim>\<open>bool\<close> (\<^verbatim>\<open>gcode_state\<close> being any value or absent), resolving it does not raise and
    returns \<^verbatim>\<open>Done\<close>, \<^verbatim>\<open>Unknown\<close> or the rendering of a number of hours that is not negative
    and a number of minutes between 0 and 59;
  \<^item> when its \<^verbatim>\<open>print\<close> entry is a dict and \<^verbatim>\<open>mc_remaining_time\<close> is a \<^verbatim>\<open>float\<close>, resolving it
    does not raise and returns a string;
  \<^item> when its \<^verbatim>\<open>print\<close> entry is not a dict, resolving it raises \<^verbatim>\<open>AttributeError\<close>;
  \<^item> when its \<^verbatim>\<open>print\<close> entry is a dict, \<^verbatim>\<open>mc_remaining_time\<close> is present and not a number,
    and \<^verbatim>\<open>gcode_state\<close> is none of \<^verbatim>\<open>FINISH\<close>, \<^verbatim>\<open>FAILED\<close>, \<^verbatim>\<open>IDLE\<close>, resolving it raises
    \<^verbatim>\<open>TypeError\<close>.
\<close>

theorem classify_total_on_typed_reports:
  "(map_of kvs ''print'' = Some (JDict pd)
      \<and> (map_of pd ''mc_remaining_time'' = None
          \<or> (\<exists>v r. map_of pd ''mc_remaining_time'' = Some v \<and> as_int v = Some r))
    \<longrightarrow> classify (JDict kvs) = Inr ''Done'' \<or> classify (JDict kvs) = Inr ''Unknown''
        \<or> (\<exists>hours minutes. 0 \<le> hours \<and> 0 \<le> minutes \<and> minutes \<le> 59
             \<and> classify (JDict kvs)
                 = Inr (if 0 < hours then str_int hours @ ''h '' @ str_int minutes @ ''m''
                        else str_int minutes @ '' minutes'')))
   \<and> (map_of kvs ''print'' = Some (JDict pd) \<and> map_of pd ''mc_remaining_time'' = Some (JFloat f)
    \<longrightarrow> (\<exists>s. classify (JDict kvs) = Inr s))
   \<and> (map_of kvs ''print'' = Some w \<and> (\<forall>pd'. w \<noteq> JDict pd')
    \<longrightarrow> classify (JDict kvs) = Inl AttributeError)
   \<and> (map_of kvs ''print'' = Some (JDict pd) \<and> map_of pd ''mc_remaining_time'' = Some t
      \<and> as_num t = None
      \<and> (case map_of pd ''gcode_state'' of None \<Rightarrow> JStr [] | Some g \<Rightarrow> g)
           \<notin> {JStr ''FINISH'', JStr ''FAILED'', JStr ''IDLE''}
    \<longrightarrow> classify (JDict kvs) = Inl TypeError)"
proof (intro conjI impI)
  assume a: "map_of kvs ''print'' = Some (JDict pd)
      \<and> (map_of pd ''mc_remaining_time'' = None
          \<or> (\<exists>v r. map_of pd ''mc_remaining_time'' = Some v \<and> as_int v = Some r))"
  then have p: "map_of kvs ''print'' = Some (JDict pd)" ..
  obtain r where r: "as_int (case map_of pd ''mc_remaining_time'' of
                               None \<Rightarrow> JInt (- 1) | Some v \<Rightarrow> v) = Some r"
    using a by auto
  note n = as_int_as_num [OF r]
  show "classify (JDict kvs) = Inr ''Done'' \<or> classify (JDict kvs) = Inr ''Unknown''
        \<or> (\<exists>hours minutes. 0 \<le> hours \<and> 0 \<le> minutes \<and> minutes \<le> 59
             \<and> classify (JDict kvs)
                 = Inr (if 0 < hours then str_int hours @ ''h '' @ str_int minutes @ ''m''
                        else str_int minutes @ '' minutes''))"
  proof (cases "classify (JDict kvs) = Inr ''Done'' \<or> classify (JDict kvs) = Inr ''Unknown''")
    case True
    then show ?thesis by blast
  next
    case False
    then have "classify (JDict kvs)
                 = Inr (if 0 < r div 60 then str_int (r div 60) @ ''h '' @ str_int (r mod 60) @ ''m''
                        else str_int (r mod 60) @ '' minutes'')" and "0 < r"
      using n by (auto simp: classify_dict [OF p] Let_def format_remaining_def split: if_splits)
    moreover have "0 \<le> r div 60" "0 \<le> r mod 60" "r mod 60 \<le> 59"
      using \<open>0 < r\<close> by (simp_all add: pos_imp_zdiv_nonneg_iff)
    ultimately show ?thesis by blast
  qed
next
  assume "map_of kvs ''print'' = Some (JDict pd) \<and> map_of pd ''mc_remaining_time'' = Some (JFloat f)"
  then show "\<exists>s. classify (JDict kvs) = Inr s"
    by (simp add: classify_dict Let_def)
next
  assume a: "map_of kvs ''print'' = Some w \<and> (\<forall>pd'. w \<noteq> JDict pd')"
  then have "py_get w ''mc_remaining_time'' (JInt (- 1)) = Inl AttributeError"
    by (cases w) auto
  with a show "classify (JDict kvs) = Inl AttributeError"
    by (simp add: classify_def)
next
  assume "map_of kvs ''print'' = Some (JDict pd) \<and> map_of pd ''mc_remaining_time'' = Some t
      \<and> as_num t = None
      \<and> (case map_of pd ''gcode_state'' of None \<Rightarrow> JStr [] | Some g \<Rightarrow> g)
           \<notin> {JStr ''FINISH'', JStr ''FAILED'', JStr ''IDLE''}"
  then show "classify (JDict kvs) = Inl TypeError"
    by (simp add: classify_dict Let_def py_eq_int_def)
qed

theorem classify_total_on_typed_reports_witness:
  "(classify (report [(''gcode_state'', JInt 7), (''mc_remaining_time'', JBool True)]) = Inr ''Done''
    \<or> classify (report [(''gcode_state'', JInt 7), (''mc_remaining_time'', JBool True)]) = Inr ''Unknown''
    \<or> (\<exists>hours minutes. 0 \<le> hours \<and> 0 \<le> minutes \<and> minutes \<le> 59
         \<and> classify (report [(''gcode_state'', JInt 7), (''mc_remaining_time'', JBool True)])
             = Inr (if 0 < hours then str_int hours @ ''h '' @ str_int minutes @ ''m''
                    else str_int minutes @ '' minutes'')))
   \<and> (\<exists>s. classify (report [(''gcode_state'', JStr ''RUNNING''),
                            (''mc_remaining_time'', JFloat (Finite (3 / 2)))]) = Inr s)
   \<and> classify (JDict [(''print'', JInt 5)]) = Inl AttributeError
   \<and> classify (report [(''gcode_state'', JStr ''RUNNING''), (''mc_remaining_time'', JStr ''soon'')])
        = Inl TypeError"
  using classify_total_on_typed_reports [where kvs = "[(''print'', JDict [(''gcode_state'', JInt 7), (''mc_remaining_time'', JBool True)])]"
          and pd = "[(''gcode_state'', JInt 7), (''mc_remaining_time'', JBool True)]", THEN conjunct1]
        classify_total_on_typed_reports [where kvs = "[(''print'', JDict [(''gcode_state'', JStr ''RUNNING''), (''mc_remaining_time'', JFloat (Finite (3 / 2)))])]"
          and pd = "[(''gcode_state'', JStr ''RUNNING''), (''mc_remaining_time'', JFloat (Finite (3 / 2)))]"
          and f = "Finite (3 / 2)", THEN conjunct2, THEN conjunct1]
        classify_total_on_typed_reports [where kvs = "[(''print'', JInt 5)]" and w = "JInt 5",
          THEN conjunct2, THEN conjunct2, THEN conjunct1]
        classify_total_on_typed_reports [where kvs = "[(''print'', JDict [(''gcode_state'', JStr ''RUNNING''), (''mc_remaining_time'', JStr ''soon'')])]"
          and pd = "[(''gcode_state'', JStr ''RUNNING''), (''mc_remaining_time'', JStr ''soon'')]"
          and t = "JStr ''soon''", THEN conjunct2, THEN conjunct2, THEN conjunct2]
  by (simp add: report_def)

section \<open>The session\<close>

text \<open>
  Claim C1. On every exit path of \<^verbatim>\<open>get_bambu_printer_status\<close> (a report resolved, a
  connection failure, the timeout, an exception raised by \<^verbatim>\<open>connect_async\<close>, by
  \<^verbatim>\<open>loop_start\<close> or during the wait) the client calls end with \<^verbatim>\<open>loop_stop\<close> and then
  \<^verbatim>\<open>disconnect\<close>, after \<^verbatim>\<open>connect_async\<close>, and neither of the two is called before that: the
  teardown runs exactly once, and it runs before the function returns or raises.
\<close>

theorem teardown_exactly_once:
  "\<exists>before. calls (snd (get_bambu_printer_status ip serial access_code timeout env))
              = before @ [Loop_stop, Disconnect]
            \<and> Connect_async ip 8883 60 \<in> set before
            \<and> Loop_stop \<notin> set before \<and> Disconnect \<notin> set before"
proof -
  let ?before = "[Client (''bambu-status-checker-'' @ uuid4 env), Tls_set, Tls_insecure_set True,
      Username_pw_set ''bblp'' access_code, Connect_async ip 8883 60]
     @ (if connect_async_raises env = None
        then Loop_start # (if loop_start_raises env = None
                           then sent serial (during_wait env @ after_wait env) else [])
        else [])"
  have no: "Loop_stop \<notin> set (sent serial es)" "Disconnect \<notin> set (sent serial es)" for es
    using sent_only [of _ serial es] by auto
  have "calls (snd (get_bambu_printer_status ip serial access_code timeout env))
          = ?before @ [Loop_stop, Disconnect]"
    by (simp add: calls_result)
  moreover have "Connect_async ip 8883 60 \<in> set ?before"
    by simp
  moreover have "Loop_stop \<notin> set ?before" "Disconnect \<notin> set ?before"
    using no by simp_all
  ultimately show ?thesis by blast
qed

text \<open>
  The same at one call in which the wait is interrupted after a report has arrived: the
  call raises, and \<^verbatim>\<open>loop_stop\<close> and \<^verbatim>\<open>disconnect\<close> have each been called once.
\<close>

theorem teardown_exactly_once_witness:
  "fst (get_bambu_printer_status ''192.168.68.113'' ''S1'' ''code'' 10
          \<lparr>uuid4 = ''0'', connect_async_raises = None, loop_start_raises = None,
           wait_raises = Some (LibraryError ''interrupted''),
           during_wait = [Connack 0, Message (Inr (report [(''gcode_state'', JStr ''IDLE'')]))],
           after_wait = []\<rparr>) = Inl (LibraryError ''interrupted'')
   \<and> count_list (calls (snd (get_bambu_printer_status ''192.168.68.113'' ''S1'' ''code'' 10
          \<lparr>uuid4 = ''0'', connect_async_raises = None, loop_start_raises = None,
           wait_raises = Some (LibraryError ''interrupted''),
           during_wait = [Connack 0, Message (Inr (report [(''gcode_state'', JStr ''IDLE'')]))],
           after_wait = []\<rparr>))) Loop_stop = 1
   \<and> count_list (calls (snd (get_bambu_printer_status ''192.168.68.113'' ''S1'' ''code'' 10
          \<lparr>uuid4 = ''0'', connect_async_raises = None, loop_start_raises = None,
           wait_raises = Some (LibraryError ''interrupted''),
           during_wait = [Connack 0, Message (Inr (report [(''gcode_state'', JStr ''IDLE'')]))],
           after_wait = []\<rparr>))) Disconnect = 1"
  using teardown_exactly_once [of "''192.168.68.113''" "''S1''" "''code''" 10
          "\<lparr>uuid4 = ''0'', connect_async_raises = None, loop_start_raises = None,
           wait_raises = Some (LibraryError ''interrupted''),
           during_wait = [Connack 0, Message (Inr (report [(''gcode_state'', JStr ''IDLE'')]))],
           after_wait = []\<rparr>"]
  by (auto simp: get_bambu_printer_status_def Let_def)

text \<open>
  Claim C2. When no library call raises and the connection fails (a callback records a
  connection error, at any moment before the thread is joined) or the wait times out (no
  failure and no qualifying message is delivered during the wait), the call returns
  \<^verbatim>\<open>"Unknown"\<close>: it does not raise, and the value is the same for both causes.
\<close>

theorem failures_return_unknown:
  assumes "connect_async_raises env = None" "loop_start_raises env = None" "wait_raises env = None"
      and "(\<exists>e\<in>set (during_wait env @ after_wait env). connect_failure e)
           \<or> (\<forall>e\<in>set (during_wait env). \<not> connect_failure e \<and> \<not> qualifying e)"
  shows "fst (get_bambu_printer_status ip serial access_code timeout env) = Inr ''Unknown''"
  using assms(4) unfolding result_quiet [OF assms(1-3)] by auto

theorem failures_return_unknown_witness:
  "fst (get_bambu_printer_status ''192.168.68.113'' ''S1'' ''code'' 10 (quiet [Connect_failed] []))
     = Inr ''Unknown''
   \<and> fst (get_bambu_printer_status ''192.168.68.113'' ''S1'' ''code'' 10 (quiet [Connack 5] []))
     = Inr ''Unknown''
   \<and> fst (get_bambu_printer_status ''192.168.68.113'' ''S1'' ''code'' 10
            (quiet [Connack 0, Message (Inl JSONDecodeError)]
                   [Message (Inr (report [(''gcode_state'', JStr ''IDLE'')]))]))
     = Inr ''Unknown''"
  using failures_return_unknown [of "quiet [Connect_failed] []" "''192.168.68.113''" "''S1''" "''code''" 10]
        failures_return_unknown [of "quiet [Connack 5] []" "''192.168.68.113''" "''S1''" "''code''" 10]
        failures_return_unknown [of "quiet [Connack 0, Message (Inl JSONDecodeError)]
                   [Message (Inr (report [(''gcode_state'', JStr ''IDLE'')]))]"
          "''192.168.68.113''" "''S1''" "''code''" 10]
  by (simp add: quiet_def)

text \<open>
  Claim C10. When no library call raises and some callback has recorded a connection error,
  at any moment of the session, the variable is still set when the function reads it and
  the call returns \<^verbatim>\<open>"Unknown"\<close>, whatever report has been captured: line 93 is tested
  before line 99. In the witness a report that would resolve to \<^verbatim>\<open>"2h 5m"\<close> has been captured.
\<close>

theorem connection_error_first:
  assumes "connect_async_raises env = None" "loop_start_raises env = None" "wait_raises env = None"
      and "e \<in> set (during_wait env @ after_wait env)" and "connect_failure e"
  shows "truthy_str (connection_error (snd (get_bambu_printer_status ip serial access_code timeout env)))
         \<and> fst (get_bambu_printer_status ip serial access_code timeout env) = Inr ''Unknown''"
proof -
  have "truthy_str (connection_error (snd (get_bambu_printer_status ip serial access_code timeout env)))"
    using assms(4,5)
    by (auto simp: fetch_unfold [OF assms(1,2)] Let_def error_teardown error_network_loop)
  moreover have "fst (get_bambu_printer_status ip serial access_code timeout env) = Inr ''Unknown''"
    using assms(4,5) unfolding result_quiet [OF assms(1-3)] by auto
  ultimately show ?thesis ..
qed

theorem connection_error_first_witness:
  "status_data (snd (get_bambu_printer_status ''192.168.68.113'' ''S1'' ''code'' 10
      (quiet [Connack 0,
              Message (Inr (report [(''gcode_state'', JStr ''RUNNING''), (''mc_remaining_time'', JInt 125)])),
              Disconnected 1, Connect_failed] [])))
     = Some (report [(''gcode_state'', JStr ''RUNNING''), (''mc_remaining_time'', JInt 125)])
   \<and> fst (get_bambu_printer_status ''192.168.68.113'' ''S1'' ''code'' 10
      (quiet [Connack 0,
              Message (Inr (report [(''gcode_state'', JStr ''RUNNING''), (''mc_remaining_time'', JInt 125)])),
              Disconnected 1, Connect_failed] []))
     = Inr ''Unknown''"
  using connection_error_first [of "quiet [Connack 0,
              Message (Inr (report [(''gcode_state'', JStr ''RUNNING''), (''mc_remaining_time'', JInt 125)])),
              Disconnected 1, Connect_failed] []" Connect_failed "''192.168.68.113''" "''S1''" "''code''" 10]
  by (simp add: model_defs)

text \<open>
  Claim C7, as stated: of several qualifying messages only the first determines the
  result, a second one has no effect on it. It has: \<^verbatim>\<open>on_message\<close> assigns \<^verbatim>\<open>status_data\<close> at
  every qualifying message, and the thread runs callbacks until \<^verbatim>\<open>loop_stop\<close> has joined it.
  With one report of a running print the call returns \<^verbatim>\<open>"2h 5m"\<close>; with a second report
  behind it, delivered before the thread is joined, it returns \<^verbatim>\<open>"Done"\<close>.
\<close>

theorem second_report_changes_result:
  "fst (get_bambu_printer_status ''192.168.68.113'' ''S1'' ''code'' 10
          (quiet [Connack 0,
                  Message (Inr (report [(''gcode_state'', JStr ''RUNNING''), (''mc_remaining_time'', JInt 125)]))]
                 [])) = Inr ''2h 5m''
   \<and> fst (get_bambu_printer_status ''192.168.68.113'' ''S1'' ''code'' 10
          (quiet [Connack 0,
                  Message (Inr (report [(''gcode_state'', JStr ''RUNNING''), (''mc_remaining_time'', JInt 125)]))]
                 [Message (Inr (report [(''gcode_state'', JStr ''FINISH'')]))])) = Inr ''Done''"
  by (simp add: model_defs)

text \<open>
  Claim C7, amended: signalling the wait more than once raises nothing and leaves it
  signalled, and of several qualifying messages the last one delivered before the thread is
  joined determines the result. When no library call raises, no callback records a
  connection error and a qualifying message is delivered during the wait, the call returns
  what the last qualifying message of the session resolves to.
\<close>

theorem last_report_wins:
  assumes "connect_async_raises env = None" "loop_start_raises env = None" "wait_raises env = None"
      and "\<forall>e\<in>set (during_wait env @ after_wait env). \<not> connect_failure e"
      and "\<exists>e\<in>set (during_wait env). qualifying e"
      and "during_wait env @ after_wait env = es1 @ Message (Inr p) # es2"
      and "py_contains ''print'' p = Inr True"
      and "\<forall>e\<in>set es2. \<not> qualifying e"
  shows "fst (get_bambu_printer_status ip serial access_code timeout env) = classify p
         \<and> message_received_event (snd (get_bambu_printer_status ip serial access_code timeout env))"
proof -
  have "status_data (snd (get_bambu_printer_status ip serial access_code timeout env)) = Some p"
    unfolding fetch_unfold [OF assms(1,2)] Let_def snd_conv status_teardown assms(6)
    by (rule status_network_loop_last [OF assms(7,8)])
  then have "fst (get_bambu_printer_status ip serial access_code timeout env) = classify p"
    using assms(4,5) contains_truthy [OF assms(7)] unfolding result_quiet [OF assms(1-3)] by auto
  moreover have "message_received_event (snd (get_bambu_printer_status ip serial access_code timeout env))"
    using assms(5)
    by (auto simp: fetch_unfold [OF assms(1,2)] Let_def event_teardown event_network_loop)
  ultimately show ?thesis ..
qed

theorem last_report_wins_witness:
  "fst (get_bambu_printer_status ''192.168.68.113'' ''S1'' ''code'' 10
          (quiet [Connack 0,
                  Message (Inr (report [(''gcode_state'', JStr ''RUNNING''), (''mc_remaining_time'', JInt 125)])),
                  Message (Inr (report [(''gcode_state'', JStr ''FINISH'')])),
                  Message (Inr (JDict [(''pushing'', JDict [])]))] []))
     = Inr ''Done''
   \<and> message_received_event (snd (get_bambu_printer_status ''192.168.68.113'' ''S1'' ''code'' 10
          (quiet [Connack 0,
                  Message (Inr (report [(''gcode_state'', JStr ''RUNNING''), (''mc_remaining_time'', JInt 125)])),
                  Message (Inr (report [(''gcode_state'', JStr ''FINISH'')])),
                  Message (Inr (JDict [(''pushing'', JDict [])]))] [])))"
  using last_report_wins [of "quiet [Connack 0,
                  Message (Inr (report [(''gcode_state'', JStr ''RUNNING''), (''mc_remaining_time'', JInt 125)])),
                  Message (Inr (report [(''gcode_state'', JStr ''FINISH'')])),
                  Message (Inr (JDict [(''pushing'', JDict [])]))] []"
          "[Connack 0,
            Message (Inr (report [(''gcode_state'', JStr ''RUNNING''), (''mc_remaining_time'', JInt 125)]))]"
          "report [(''gcode_state'', JStr ''FINISH'')]"
          "[Message (Inr (JDict [(''pushing'', JDict [])]))]"
          "''192.168.68.113''" "''S1''" "''code''" 10]
  by (simp add: quiet_def report_def classify_def py_eq_str_def)

text \<open>
  Claim C8. In the client calls of a session every publish is the status request on
  \<^verbatim>\<open>device/{serial}/request\<close>, and the call just before it is the subscription to
  \<^verbatim>\<open>device/{serial}/report\<close>; and a session in which \<^verbatim>\<open>on_connect\<close> runs with return code 0
  does make the two calls, in this order.
\<close>

theorem subscribe_before_publish:
  "(\<forall>xs t p ys. calls (snd (get_bambu_printer_status ip serial access_code timeout env))
                   = xs @ Publish t p # ys
        \<longrightarrow> (\<exists>zs. xs = zs @ [Subscribe (subscribe_topic serial)])
            \<and> t = publish_topic serial \<and> p = status_payload)
   \<and> (connect_async_raises env = None \<and> loop_start_raises env = None
        \<and> Connack 0 \<in> set (during_wait env @ after_wait env)
        \<longrightarrow> (\<exists>xs ys. calls (snd (get_bambu_printer_status ip serial access_code timeout env))
                   = xs @ Subscribe (subscribe_topic serial)
                        # Publish (publish_topic serial) status_payload # ys))"
proof (intro conjI allI impI)
  fix xs t p ys
  let ?A = "[Client (''bambu-status-checker-'' @ uuid4 env), Tls_set, Tls_insecure_set True,
      Username_pw_set ''bblp'' access_code, Connect_async ip 8883 60]"
  let ?M = "if connect_async_raises env = None
        then Loop_start # (if loop_start_raises env = None
                           then sent serial (during_wait env @ after_wait env) else [])
        else []"
  assume "calls (snd (get_bambu_printer_status ip serial access_code timeout env))
            = xs @ Publish t p # ys"
  then have "(?A @ ?M) @ [Loop_stop, Disconnect] = xs @ Publish t p # ys"
    by (simp add: calls_result)
  then obtain ys' where "?A @ ?M = xs @ Publish t p # ys'"
    using split_append_right by blast
  moreover have "Publish t p \<notin> set ?A" by simp
  ultimately obtain xs' where xs: "xs = ?A @ xs'" and M: "?M = xs' @ Publish t p # ys'"
    using split_append_left by blast
  then have ok: "connect_async_raises env = None"
    by (auto split: if_splits)
  with M have M': "Loop_start # (if loop_start_raises env = None
      then sent serial (during_wait env @ after_wait env) else []) = xs' @ Publish t p # ys'"
    by simp
  then obtain xs'' where xs': "xs' = Loop_start # xs''"
    and S: "(if loop_start_raises env = None
      then sent serial (during_wait env @ after_wait env) else []) = xs'' @ Publish t p # ys'"
    by (cases xs') auto
  then have "sent serial (during_wait env @ after_wait env) = xs'' @ Publish t p # ys'"
    by (auto split: if_splits)
  from sent_split [OF this] obtain zs where "xs'' = zs @ [Subscribe (subscribe_topic serial)]"
    and tp: "t = publish_topic serial \<and> p = status_payload"
    by blast
  with xs xs' have "xs = (?A @ Loop_start # zs) @ [Subscribe (subscribe_topic serial)]"
    by simp
  then show "\<exists>zs. xs = zs @ [Subscribe (subscribe_topic serial)]" ..
  from tp show "t = publish_topic serial" "p = status_payload" by simp_all
next
  assume a: "connect_async_raises env = None \<and> loop_start_raises env = None
        \<and> Connack 0 \<in> set (during_wait env @ after_wait env)"
  then obtain xs ys where "sent serial (during_wait env @ after_wait env)
      = xs @ Subscribe (subscribe_topic serial) # Publish (publish_topic serial) status_payload # ys"
    using sent_connack by blast
  with a have "calls (snd (get_bambu_printer_status ip serial access_code timeout env))
      = ([Client (''bambu-status-checker-'' @ uuid4 env), Tls_set, Tls_insecure_set True,
      Username_pw_set ''bblp'' access_code, Connect_async ip 8883 60, Loop_start] @ xs)
        @ Subscribe (subscribe_topic serial) # Publish (publish_topic serial) status_payload
        # (ys @ [Loop_stop, Disconnect])"
    by (simp add: calls_result)
  then show "\<exists>xs ys. calls (snd (get_bambu_printer_status ip serial access_code timeout env))
                   = xs @ Subscribe (subscribe_topic serial)
                        # Publish (publish_topic serial) status_payload # ys"
    by blast
qed

theorem subscribe_before_publish_witness:
  "calls (snd (get_bambu_printer_status ''192.168.68.113'' ''S1'' ''code'' 10 (quiet [Connack 0] [])))
     = [Client ''bambu-status-checker-0'', Tls_set, Tls_insecure_set True,
        Username_pw_set ''bblp'' ''code'', Connect_async ''192.168.68.113'' 8883 60, Loop_start,
        Subscribe ''device/S1/report''] @ Publish ''device/S1/request'' status_payload
        # [Loop_stop, Disconnect]
   \<and> (\<exists>zs. [Client ''bambu-status-checker-0'', Tls_set, Tls_insecure_set True,
        Username_pw_set ''bblp'' ''code'', Connect_async ''192.168.68.113'' 8883 60, Loop_start,
        Subscribe ''device/S1/report''] = zs @ [Subscribe ''device/S1/report''])"
  using subscribe_before_publish [of "''192.168.68.113''" "''S1''" "''code''" 10 "quiet [Connack 0] []",
          THEN conjunct1, rule_format,
          of "[Client ''bambu-status-checker-0'', Tls_set, Tls_insecure_set True,
        Username_pw_set ''bblp'' ''code'', Connect_async ''192.168.68.113'' 8883 60, Loop_start,
        Subscribe ''device/S1/report'']" "''device/S1/request''" status_payload "[Loop_stop, Disconnect]"]
  by (simp add: model_defs)

text \<open>
  Claim C9 says that a message without a top-level \<^verbatim>\<open>print\<close> section is ignored. Line 49
  tests \<^verbatim>\<open>"print" in payload\<close>, which on a list is element membership: the JSON text
  \<^verbatim>\<open>["print"]\<close> has no \<^verbatim>\<open>print\<close> section, yet it is captured, the wait is released, and
  line 102 raises \<^verbatim>\<open>AttributeError\<close> out of the call.
\<close>

theorem list_payload_is_captured:
  "status_data (snd (get_bambu_printer_status ''192.168.68.113'' ''S1'' ''code'' 10
      (quiet [Connack 0, Message (Inr (JList [JStr ''print'']))] [])))
     = Some (JList [JStr ''print''])
   \<and> message_received_event (snd (get_bambu_printer_status ''192.168.68.113'' ''S1'' ''code'' 10
      (quiet [Connack 0, Message (Inr (JList [JStr ''print'']))] [])))
   \<and> fst (get_bambu_printer_status ''192.168.68.113'' ''S1'' ''code'' 10
      (quiet [Connack 0, Message (Inr (JList [JStr ''print'']))] []))
     = Inl AttributeError"
  by (simp add: model_defs)

end
